theory Spec2Isabelle
  imports
    Complex_Main
    "HOL-Library.Multiset"
    "HOL-Library.Char_ord"
    "HOL-Library.List_Lexorder"
begin

section \<open>Data model of mete\_sads.py\<close>

text \<open>
  \<open>run_test\<close> reads a table with the columns \<open>site, year, sp, ab\<close> (numpy dtype
  \<open>S9,i8,S9,i8\<close>). The table is modelled as the list of its rows, in file order; the
  table \<open>np.genfromtxt\<close> returns is taken to be one-dimensional. An abundance is a
  Python/numpy integer; the only place where the 64-bit width of \<open>i8\<close> shows is the
  total \<open>N = sum(subab)\<close>, where the wrap-around is written out (\<open>wrap_i8\<close>).
\<close>

record abundance_record =
  site :: string
  year :: int
  sp :: string
  ab :: int

text \<open>A row of the first output file: \<open>np.column_stack((subsites, subab, pred))\<close>.\<close>

record species_row =
  row_site :: string
  observed :: int
  predicted :: int

text \<open>
  A row of the second output file: \<open>np.column_stack((usites[i], S, N, p, weight))\<close>.
  The type \<open>'f\<close> stands for the floating-point values the collaborators return.
\<close>

record 'f site_row =
  srow_site :: string
  srow_S :: int
  srow_N :: int
  srow_p :: 'f
  srow_weight :: 'f

text \<open>
  The rows of the table \<open>rare_sp_count\<close> reads back (dtype \<open>S9,i8,i8\<close>, names
  \<open>site, obs, pred\<close>).
\<close>

record obs_pred_row =
  op_site :: string
  op_obs :: int
  op_pred :: int

text \<open>
  Exceptions. The source raises none by name. \<open>ParseError\<close> and \<open>ModelFitError\<close> are
  the names the specification gives to what the loader and the model functions raise;
  \<open>ValueError\<close> is what \<open>np.column_stack\<close> raises on columns of different lengths and
  what \<open>max\<close> raises on an empty sequence; \<open>UnboundLocalError\<close> is a read of a local
  variable that was never assigned; \<open>TypeError\<close> is what \<open>set\<close> raises on a
  zero-dimensional array.
\<close>

datatype error = ParseError | ModelFitError | ValueError | UnboundLocalError | TypeError

text \<open>
  The collaborators that \<open>run_test\<close> calls and that are not part of the file:
  \<open>np.genfromtxt\<close>, \<open>mete.get_mete_sad\<close>, \<open>md.logser_ll\<close>, \<open>np.log\<close>, \<open>np.mean\<close>,
  \<open>np.std\<close>, \<open>md.pln_ll\<close>, \<open>weestats.AICc\<close> and \<open>weestats.aic_weight\<close>. Each one that
  can raise returns \<open>Inl\<close> of the exception.
\<close>

record 'f externals =
  genfromtxt :: "string \<Rightarrow> error + abundance_record list"
  get_mete_sad :: "int \<Rightarrow> int \<Rightarrow> error + (int list \<times> 'f)"
  logser_ll :: "int list \<Rightarrow> 'f \<Rightarrow> error + 'f"
  np_log :: "int list \<Rightarrow> 'f list"
  np_mean :: "'f list \<Rightarrow> 'f"
  np_std :: "'f list \<Rightarrow> 'f"
  pln_ll :: "'f \<Rightarrow> 'f \<Rightarrow> int list \<Rightarrow> error + 'f"
  AICc :: "int \<Rightarrow> 'f \<Rightarrow> int \<Rightarrow> error + 'f"
  aic_weight :: "'f \<Rightarrow> 'f \<Rightarrow> int \<Rightarrow> int \<Rightarrow> error + 'f"

section \<open>run\_test\<close>

text \<open>\<open>ifile["site"][ifile["site"] == usites[i]]\<close>\<close>

definition subsites :: "abundance_record list \<Rightarrow> string \<Rightarrow> string list" where
  "subsites ifile u = map site (filter (\<lambda>r. site r = u) ifile)"

text \<open>\<open>ifile["ab"][ifile["site"] == usites[i]]\<close>\<close>

definition site_ab :: "abundance_record list \<Rightarrow> string \<Rightarrow> int list" where
  "site_ab ifile u = map ab (filter (\<lambda>r. site r = u) ifile)"

text \<open>\<open>S = len(subsites)\<close>\<close>

definition richness :: "abundance_record list \<Rightarrow> string \<Rightarrow> int" where
  "richness ifile u = int (length (subsites ifile u))"

text \<open>The value of a 64-bit signed integer after an addition that may overflow.\<close>

definition wrap_i8 :: "int \<Rightarrow> int" where
  "wrap_i8 x = (x + 2 ^ 63) mod 2 ^ 64 - 2 ^ 63"

text \<open>
  Python's \<open>sum\<close> over an \<open>i8\<close> array: it starts from \<open>0\<close> and adds the elements from
  left to right, each addition in 64 bits.
\<close>

definition py_sum :: "int list \<Rightarrow> int" where
  "py_sum xs = foldl (\<lambda>acc x. wrap_i8 (acc + x)) 0 xs"

text \<open>
  \<open>np.column_stack\<close> of three one-dimensional columns: one row per position, and a
  \<open>ValueError\<close> when the columns differ in length.
\<close>

definition column_stack3 :: "string list \<Rightarrow> int list \<Rightarrow> int list \<Rightarrow> error + species_row list" where
  "column_stack3 ss os ps =
     (if length ss = length os \<and> length os = length ps
      then Inr (map (\<lambda>(s, o', p). \<lparr>row_site = s, observed = o', predicted = p\<rparr>)
                    (zip ss (zip os ps)))
      else Inl ValueError)"

text \<open>
  The numbers of fitted parameters: \<open>k1 = 1\<close> for the log-series and \<open>k2 = 2\<close> for the
  log-normal.
\<close>

definition k1 :: int where "k1 = 1"
definition k2 :: int where "k2 = 2"

text \<open>
  The body of the loop over the sites, for the site \<open>u = usites[i]\<close>. The result is
  \<open>Inr None\<close> when the site is skipped, \<open>Inr (Some (results, results2))\<close> when it is
  processed (the rows handed to \<open>f1.writerows\<close> and the row handed to
  \<open>f2.writerows\<close>), and \<open>Inl e\<close> when a call raises \<open>e\<close>.
\<close>

definition fit_site ::
  "'f externals \<Rightarrow> int \<Rightarrow> abundance_record list \<Rightarrow> string
     \<Rightarrow> error + (species_row list \<times> 'f site_row) option" where
  "fit_site ext cutoff ifile u =
     (let subs = subsites ifile u;
          S = int (length subs);
          subab = sort (site_ab ifile u);
          N = py_sum subab
      in if S > cutoff then
           (case get_mete_sad ext S N of
              Inl e \<Rightarrow> Inl e
            | Inr (pred, p) \<Rightarrow>
               (let subab' = rev (sort subab) in
                case logser_ll ext subab' p of
                  Inl e \<Rightarrow> Inl e
                | Inr L_logser \<Rightarrow>
                   (let mu = np_mean ext (np_log ext subab');
                        sigma = np_std ext (np_log ext subab') in
                    case pln_ll ext mu sigma subab' of
                      Inl e \<Rightarrow> Inl e
                    | Inr L_pln \<Rightarrow>
                       (case AICc ext k1 L_logser S of
                          Inl e \<Rightarrow> Inl e
                        | Inr AICc_logser \<Rightarrow>
                           (case AICc ext k2 L_pln S of
                              Inl e \<Rightarrow> Inl e
                            | Inr AICc_pln \<Rightarrow>
                               (case aic_weight ext AICc_logser AICc_pln S 4 of
                                  Inl e \<Rightarrow> Inl e
                                | Inr weight \<Rightarrow>
                                   (case column_stack3 subs subab' pred of
                                      Inl e \<Rightarrow> Inl e
                                    | Inr results \<Rightarrow>
                                        Inr (Some (results,
                                          \<lparr>srow_site = u, srow_S = S, srow_N = N,
                                           srow_p = p, srow_weight = weight\<rparr>)))))))))
         else Inr None)"

text \<open>
  The loop \<open>for i in range(0, len(usites))\<close>. The state is the pair of the two output
  files' rows; both files are open in append mode, so rows are added at the end. The
  second component of the result is the exception that ended the loop, if any: the
  source catches none, so the first one raised ends the run.
\<close>

fun site_loop ::
  "'f externals \<Rightarrow> int \<Rightarrow> abundance_record list \<Rightarrow> string list
     \<Rightarrow> species_row list \<times> 'f site_row list
     \<Rightarrow> (species_row list \<times> 'f site_row list) \<times> error option" where
  "site_loop ext cutoff ifile [] out = (out, None)"
| "site_loop ext cutoff ifile (u # us) (f1, f2) =
     (case fit_site ext cutoff ifile u of
        Inl e \<Rightarrow> ((f1, f2), Some e)
      | Inr None \<Rightarrow> site_loop ext cutoff ifile us (f1, f2)
      | Inr (Some (results, results2)) \<Rightarrow>
          site_loop ext cutoff ifile us (f1 @ results, f2 @ [results2]))"

text \<open>\<open>usites = np.sort(list(set(ifile["site"])))\<close>: the distinct sites in byte order.\<close>

definition usites :: "abundance_record list \<Rightarrow> string list" where
  "usites ifile = sort (remdups (map site ifile))"

text \<open>
  \<open>run_test(input_filename, output_filename1, output_filename2, cutoff)\<close>. The two
  output files are given by their rows before the run (the two names are taken to be
  different files, and opening them to succeed); the result holds their rows after
  it. The table is loaded before either file is opened.
\<close>

definition run_test ::
  "'f externals \<Rightarrow> string \<Rightarrow> species_row list \<times> 'f site_row list \<Rightarrow> int
     \<Rightarrow> (species_row list \<times> 'f site_row list) \<times> error option" where
  "run_test ext input_filename out cutoff =
     (case genfromtxt ext input_filename of
        Inl e \<Rightarrow> (out, Some e)
      | Inr ifile \<Rightarrow> site_loop ext cutoff ifile (usites ifile) out)"

text \<open>The rows a call of \<open>fit_site\<close> hands to the first writer (none when it skips or raises).\<close>

definition emitted_rows ::
  "error + (species_row list \<times> 'f site_row) option \<Rightarrow> species_row list" where
  "emitted_rows r = (case r of Inr (Some (results, results2)) \<Rightarrow> results | _ \<Rightarrow> [])"

text \<open>Descending order, as \<open>np.sort(subab)[::-1]\<close> produces it.\<close>

definition descending :: "int list \<Rightarrow> bool" where
  "descending xs = sorted_wrt (\<lambda>a b. b \<le> a) xs"

section \<open>rare\_sp\_count\<close>

text \<open>
  Python's \<open>max\<close> over a sequence: a \<open>ValueError\<close> when it is empty, else the largest
  element, found from left to right.
\<close>

definition py_max :: "int list \<Rightarrow> error + int" where
  "py_max xs = (case xs of [] \<Rightarrow> Inl ValueError | x # rest \<Rightarrow> Inr (foldl max x rest))"

text \<open>
  The \<open>if\<close>/\<open>elif\<close> chain of the loop body, on the \<open>pred\<close> and \<open>obs\<close> columns of one
  site. There is no \<open>else\<close>: for any other class name \<open>subpred\<close> is unassigned when
  \<open>pred_class.append(subpred)\<close> reads it.
\<close>

definition class_counts :: "string \<Rightarrow> int list \<Rightarrow> int list \<Rightarrow> error + (int \<times> int)" where
  "class_counts abundance_class prd ob =
     (if abundance_class = ''singleton'' then
        Inr (int (length (filter (\<lambda>x. x = 1) prd)), int (length (filter (\<lambda>x. x = 1) ob)))
      else if abundance_class = ''doubleton'' then
        Inr (int (length (filter (\<lambda>x. x = 2) prd)), int (length (filter (\<lambda>x. x = 2) ob)))
      else if abundance_class = ''dominant'' then
        (case py_max prd of
           Inl e \<Rightarrow> Inl e
         | Inr subpred \<Rightarrow>
            (case py_max ob of Inl e \<Rightarrow> Inl e | Inr subobs \<Rightarrow> Inr (subpred, subobs)))
      else if abundance_class = ''rare'' then
        Inr (int (length (filter (\<lambda>x. x \<le> 10) prd)), int (length (filter (\<lambda>x. x \<le> 10) ob)))
      else Inl UnboundLocalError)"

text \<open>
  \<open>ifile["pred"][ifile["site"] == usites[i]]\<close> and
  \<open>ifile["obs"][ifile["site"] == usites[i]]\<close>
\<close>

definition site_pred :: "obs_pred_row list \<Rightarrow> string \<Rightarrow> int list" where
  "site_pred ifile u = map op_pred (filter (\<lambda>r. op_site r = u) ifile)"

definition site_obs :: "obs_pred_row list \<Rightarrow> string \<Rightarrow> int list" where
  "site_obs ifile u = map op_obs (filter (\<lambda>r. op_site r = u) ifile)"

text \<open>
  The loop over the sites, with the two result lists \<open>pred_class\<close> and \<open>obs_class\<close> as
  the state.
\<close>

fun class_loop ::
  "obs_pred_row list \<Rightarrow> string \<Rightarrow> string list \<Rightarrow> int list \<times> int list
     \<Rightarrow> error + (int list \<times> int list)" where
  "class_loop ifile abundance_class [] acc = Inr acc"
| "class_loop ifile abundance_class (u # us) (pred_class, obs_class) =
     (case class_counts abundance_class (site_pred ifile u) (site_obs ifile u) of
        Inl e \<Rightarrow> Inl e
      | Inr (subpred, subobs) \<Rightarrow>
          class_loop ifile abundance_class us (pred_class @ [subpred], obs_class @ [subobs]))"

text \<open>
  \<open>rare_sp_count\<close>, on the rows of the file \<open>input_filename\<close> in file order.
  \<open>np.genfromtxt\<close> returns a file of exactly one row as a zero-dimensional array, and
  \<open>set(site)\<close> raises a \<open>TypeError\<close> on it, before the loop; a file of no row or of
  several rows is a one-dimensional table. The order in which \<open>list(set(site))\<close>
  lists the distinct sites is not fixed by the source; it is the parameter \<open>listing\<close>,
  and \<open>set_listing\<close> says what every such order satisfies.
\<close>

definition rare_sp_count ::
  "(string list \<Rightarrow> string list) \<Rightarrow> obs_pred_row list \<Rightarrow> string
     \<Rightarrow> error + (int list \<times> int list)" where
  "rare_sp_count listing ifile abundance_class =
     (if length ifile = 1 then Inl TypeError
      else class_loop ifile abundance_class (listing (map op_site ifile)) ([], []))"

definition set_listing :: "(string list \<Rightarrow> string list) \<Rightarrow> bool" where
  "set_listing listing = (\<forall>xs. distinct (listing xs) \<and> set (listing xs) = set xs)"

text \<open>The table of one site with the given observed and predicted columns.\<close>

definition one_site_table :: "string \<Rightarrow> int list \<Rightarrow> int list \<Rightarrow> obs_pred_row list" where
  "one_site_table s ob prd =
     map (\<lambda>(o', p). \<lparr>op_site = s, op_obs = o', op_pred = p\<rparr>) (zip ob prd)"

section \<open>The statistics collaborators, from their documented contracts\<close>

text \<open>
  Modelled from the spec: the denominator \<open>S - k - 1\<close> in the formula of
  \<open>weestats.AICc\<close>, which is not part of the source file.
\<close>

definition aicc_denominator :: "int \<Rightarrow> int \<Rightarrow> int" where
  "aicc_denominator k n = n - k - 1"

text \<open>
  Modelled from the spec: \<open>weestats.AICc\<close>, which is not part of the source file. The
  specification gives the formula
  \<open>AICc = -2 * logLikelihood + 2 * k + (2 * k * (k + 1)) / (S - k - 1)\<close> and says that
  it fails when \<open>S - k - 1 \<le> 0\<close>. Floating-point numbers are taken as reals.
\<close>

definition AICc_spec :: "int \<Rightarrow> real \<Rightarrow> int \<Rightarrow> error + real" where
  "AICc_spec k L n =
     (if aicc_denominator k n \<le> 0 then Inl ModelFitError
      else Inr (- 2 * L + 2 * of_int k + of_int (2 * k * (k + 1)) / of_int (aicc_denominator k n)))"

text \<open>
  Modelled from the spec: \<open>weestats.aic_weight\<close>, which is not part of the source file.
  The specification gives \<open>weight = 1 / (1 + exp(-0.5 * (AICc_logser - AICc_pln)))\<close>,
  and the sentinel \<open>-1\<close> when the number of observations is below the cutoff of the
  call. Floating-point numbers are taken as reals.
\<close>

definition aic_weight_spec :: "real \<Rightarrow> real \<Rightarrow> int \<Rightarrow> int \<Rightarrow> error + real" where
  "aic_weight_spec AICc1 AICc2 n cutoff =
     Inr (if n < cutoff then - 1 else 1 / (1 + exp (- (1 / 2) * (AICc1 - AICc2))))"

section \<open>Contracts of the collaborators\<close>

text \<open>
  The calls of one site return: the predictor returns, for the richness \<open>S\<close> and the
  total \<open>N\<close>, a sequence with one value per species and a parameter, and the two
  likelihood functions return a value on the observed abundances \<open>ob\<close>.
\<close>

definition models_return :: "'f externals \<Rightarrow> int \<Rightarrow> int \<Rightarrow> int list \<Rightarrow> bool" where
  "models_return ext S N ob =
     ((\<exists>prd p. get_mete_sad ext S N = Inr (prd, p) \<and> int (length prd) = S)
      \<and> (\<forall>p. \<exists>v. logser_ll ext ob p = Inr v)
      \<and> (\<forall>mu sigma. \<exists>v. pln_ll ext mu sigma ob = Inr v))"

text \<open>The same for the site \<open>u\<close> of a table, with the values the loop body computes.\<close>

definition site_models_return :: "'f externals \<Rightarrow> abundance_record list \<Rightarrow> string \<Rightarrow> bool" where
  "site_models_return ext ifile u =
     models_return ext (richness ifile u) (py_sum (sort (site_ab ifile u)))
       (rev (sort (site_ab ifile u)))"

text \<open>
  The two statistics functions return a value for \<open>n\<close> observations and the two
  parameter counts of the source.
\<close>

definition stats_return :: "'f externals \<Rightarrow> int \<Rightarrow> bool" where
  "stats_return ext n =
     ((\<forall>L. \<exists>v. AICc ext k1 L n = Inr v)
      \<and> (\<forall>L. \<exists>v. AICc ext k2 L n = Inr v)
      \<and> (\<forall>a b c. \<exists>w. aic_weight ext a b n c = Inr w))"

section \<open>Example inputs\<close>

text \<open>The records of one site with the given abundances, one species per abundance.\<close>

definition site_records :: "string \<Rightarrow> int list \<Rightarrow> abundance_record list" where
  "site_records s abund =
     map (\<lambda>a. \<lparr>site = s, year = 2009, sp = ''sp'', ab = a\<rparr>) abund"

definition ifile_A :: "abundance_record list" where
  "ifile_A = site_records ''A'' [1, 1, 2, 5, 10, 20, 3, 4, 6, 11]"

text \<open>Two sites: ten singletons at \<open>A\<close>, and the abundances above at \<open>B\<close>.\<close>

definition ifile_AB :: "abundance_record list" where
  "ifile_AB = site_records ''A'' [1, 1, 1, 1, 1, 1, 1, 1, 1, 1]
            @ site_records ''B'' [1, 1, 2, 5, 10, 20, 3, 4, 6, 11]"

text \<open>
  Collaborators for the examples: a predictor that returns one individual per species,
  likelihoods that return \<open>0\<close>, the moments of the logarithms over the reals, and the
  two statistics functions as the specification documents them.
\<close>

definition ext_example :: "abundance_record list \<Rightarrow> real externals" where
  "ext_example table =
     \<lparr>genfromtxt = (\<lambda>name. Inr table),
      get_mete_sad = (\<lambda>S N. Inr (replicate (nat S) 1, 1 / 2)),
      logser_ll = (\<lambda>xs p. Inr 0),
      np_log = map (\<lambda>x. ln (real_of_int x)),
      np_mean = (\<lambda>xs. sum_list xs / real (length xs)),
      np_std = (\<lambda>xs. sqrt (sum_list (map (\<lambda>x. (x - sum_list xs / real (length xs))\<^sup>2) xs)
                            / real (length xs))),
      pln_ll = (\<lambda>mu sigma xs. Inr 0),
      AICc = AICc_spec,
      aic_weight = aic_weight_spec\<rparr>"

text \<open>The same with a predictor that returns its sequence in ascending order.\<close>

definition ext_ascending :: "abundance_record list \<Rightarrow> real externals" where
  "ext_ascending table = (ext_example table)\<lparr>get_mete_sad := (\<lambda>S N. Inr ([1..S], 1 / 2))\<rparr>"

text \<open>
  The same with a predictor that raises unless there are more individuals than
  species.
\<close>

definition ext_strict :: "abundance_record list \<Rightarrow> real externals" where
  "ext_strict table =
     (ext_example table)\<lparr>get_mete_sad :=
        (\<lambda>S N. if S < N then Inr (replicate (nat S) 1, 1 / 2) else Inl ModelFitError)\<rparr>"

section \<open>Facts about the loop body\<close>

lemma column_stack3_columns:
  assumes "column_stack3 ss os ps = Inr rows"
  shows "map row_site rows = ss" and "map observed rows = os" and "map predicted rows = ps"
proof -
  from assms have len: "length ss = length os" "length os = length ps"
    and rows: "rows = map (\<lambda>(s, o', p). \<lparr>row_site = s, observed = o', predicted = p\<rparr>) (zip ss (zip os ps))"
    by (auto simp: column_stack3_def split: if_splits)
  have "map row_site rows = map fst (zip ss (zip os ps))"
    by (simp add: rows case_prod_unfold)
  then show "map row_site rows = ss" using len by simp
  have "map observed rows = map fst (map snd (zip ss (zip os ps)))"
    by (simp add: rows case_prod_unfold)
  then show "map observed rows = os" using len by simp
  have "map predicted rows = map snd (map snd (zip ss (zip os ps)))"
    by (simp add: rows case_prod_unfold)
  then show "map predicted rows = ps" using len by simp
qed

lemma descending_rev_sort: "descending (rev (sort xs))"
  by (simp add: descending_def sorted_wrt_rev)

lemma sort_sort [simp]: "sort (sort xs) = sort (xs :: int list)"
  by (simp add: sorted_sort_id)

text \<open>What a processed site went through.\<close>

lemma fit_site_SomeE:
  assumes "fit_site ext cutoff ifile u = Inr (Some (rows, srow))"
  obtains prd p L1 L2 A1 A2 w where
    "cutoff < richness ifile u"
    "get_mete_sad ext (richness ifile u) (py_sum (sort (site_ab ifile u))) = Inr (prd, p)"
    "AICc ext k1 L1 (richness ifile u) = Inr A1"
    "AICc ext k2 L2 (richness ifile u) = Inr A2"
    "aic_weight ext A1 A2 (richness ifile u) 4 = Inr w"
    "column_stack3 (subsites ifile u) (rev (sort (site_ab ifile u))) prd = Inr rows"
    "srow = \<lparr>srow_site = u, srow_S = richness ifile u,
             srow_N = py_sum (sort (site_ab ifile u)), srow_p = p, srow_weight = w\<rparr>"
  using assms
  by (auto simp: fit_site_def richness_def Let_def split: if_splits sum.splits prod.splits)

text \<open>When no collaborator raises, a site above the cutoff is processed.\<close>

lemma fit_site_returns:
  assumes "site_models_return ext ifile u" and "stats_return ext (richness ifile u)"
    and "cutoff < richness ifile u"
  shows "\<exists>rows srow. fit_site ext cutoff ifile u = Inr (Some (rows, srow))"
proof -
  let ?S = "richness ifile u"
  let ?N = "py_sum (sort (site_ab ifile u))"
  let ?obs = "rev (sort (site_ab ifile u))"
  from assms(1) obtain prd p where g: "get_mete_sad ext ?S ?N = Inr (prd, p)"
    and len: "int (length prd) = ?S"
    unfolding site_models_return_def models_return_def by blast
  from assms(1) obtain L1 where l1: "logser_ll ext ?obs p = Inr L1"
    unfolding site_models_return_def models_return_def by blast
  from assms(1) obtain L2 where
    l2: "pln_ll ext (np_mean ext (np_log ext ?obs)) (np_std ext (np_log ext ?obs)) ?obs = Inr L2"
    unfolding site_models_return_def models_return_def by blast
  from assms(2) obtain A1 where a1: "AICc ext k1 L1 ?S = Inr A1"
    unfolding stats_return_def by blast
  from assms(2) obtain A2 where a2: "AICc ext k2 L2 ?S = Inr A2"
    unfolding stats_return_def by blast
  from assms(2) obtain w where w: "aic_weight ext A1 A2 ?S 4 = Inr w"
    unfolding stats_return_def by blast
  have lens: "length (subsites ifile u) = length ?obs" "length ?obs = length prd"
    using len by (simp_all add: subsites_def site_ab_def richness_def)
  then obtain rows where cs: "column_stack3 (subsites ifile u) ?obs prd = Inr rows"
    by (simp add: column_stack3_def)
  show ?thesis
    using g l1 l2 a1 a2 w cs assms(3)
    by (simp add: fit_site_def Let_def richness_def)
qed

text \<open>The loop over a list of sites in two parts.\<close>

lemma site_loop_append:
  "site_loop ext cutoff ifile (xs @ ys) out =
     (case site_loop ext cutoff ifile xs out of
        (out', None) \<Rightarrow> site_loop ext cutoff ifile ys out'
      | (out', Some e) \<Rightarrow> (out', Some e))"
proof (induction xs arbitrary: out)
  case Nil
  show ?case by simp
next
  case (Cons x xs)
  obtain f1 f2 where out: "out = (f1, f2)" by (cases out)
  show ?case
    by (simp add: out Cons.IH split: sum.splits option.splits prod.splits)
qed

text \<open>
  An exception of the loader ends \<open>run_test\<close> before either output file is opened:
  their rows are as before.
\<close>

lemma run_test_load_error:
  "genfromtxt ext name = Inl e \<Longrightarrow> run_test ext name out cutoff = (out, Some e)"
  by (simp add: run_test_def)

text \<open>An exception of the predictor or of a likelihood function leaves the loop body.\<close>

lemma fit_site_predictor_raises:
  assumes "cutoff < richness ifile u"
    and "get_mete_sad ext (richness ifile u) (py_sum (sort (site_ab ifile u))) = Inl e"
  shows "fit_site ext cutoff ifile u = Inl e"
  using assms by (simp add: fit_site_def richness_def Let_def)

lemma fit_site_logser_raises:
  assumes "cutoff < richness ifile u"
    and "get_mete_sad ext (richness ifile u) (py_sum (sort (site_ab ifile u))) = Inr (prd, p)"
    and "logser_ll ext (rev (sort (site_ab ifile u))) p = Inl e"
  shows "fit_site ext cutoff ifile u = Inl e"
  using assms by (simp add: fit_site_def richness_def Let_def)

lemma fit_site_pln_raises:
  assumes "cutoff < richness ifile u"
    and "get_mete_sad ext (richness ifile u) (py_sum (sort (site_ab ifile u))) = Inr (prd, p)"
    and "logser_ll ext (rev (sort (site_ab ifile u))) p = Inr L"
    and "pln_ll ext (np_mean ext (np_log ext (rev (sort (site_ab ifile u)))))
           (np_std ext (np_log ext (rev (sort (site_ab ifile u)))))
           (rev (sort (site_ab ifile u))) = Inl e"
  shows "fit_site ext cutoff ifile u = Inl e"
  using assms by (simp add: fit_site_def richness_def Let_def)

section \<open>Facts about the statistics collaborators\<close>

lemma AICc_spec_returns:
  "0 < aicc_denominator k n \<Longrightarrow> \<exists>v. AICc_spec k L n = Inr v"
  by (simp add: AICc_spec_def)

text \<open>The example of the specification: \<open>k = 1\<close>, \<open>S = 10\<close>, log-likelihood \<open>-20\<close>.\<close>

lemma AICc_spec_example: "AICc_spec 1 (- 20) 10 = Inr (85 / 2)"
  by (simp add: AICc_spec_def aicc_denominator_def)

lemma logistic_range:
  fixes x :: real
  assumes "0 < x"
  shows "0 < 1 / (1 + x)" and "1 / (1 + x) \<le> 1"
proof -
  from assms have p: "0 < 1 + x" by simp
  then show "0 < 1 / (1 + x)" by simp
  from assms have "1 \<le> 1 + x" by simp
  with p show "1 / (1 + x) \<le> 1" by (simp add: pos_divide_le_eq)
qed

lemma aic_weight_spec_range:
  assumes "aic_weight_spec a b n c = Inr w"
  shows "(w = - 1 \<longleftrightarrow> n < c) \<and> (\<not> n < c \<longrightarrow> 0 \<le> w \<and> w \<le> 1)"
proof (cases "n < c")
  case True
  with assms show ?thesis by (auto simp: aic_weight_spec_def)
next
  case False
  define x where "x = exp (- (1 / 2) * (a - b))"
  have pos: "0 < x" by (simp add: x_def)
  from False assms have w: "w = 1 / (1 + x)" by (auto simp: aic_weight_spec_def x_def)
  from logistic_range [OF pos] have "0 < w" "w \<le> 1" by (simp_all add: w)
  then show ?thesis using False by simp
qed

lemma aic_weight_spec_sentinel: "n < c \<Longrightarrow> aic_weight_spec a b n c = Inr (- 1)"
  by (simp add: aic_weight_spec_def)

lemma stats_return_spec:
  assumes "AICc ext = AICc_spec" and "aic_weight ext = aic_weight_spec" and "3 < n"
  shows "stats_return ext n"
  using assms(3)
  by (simp add: stats_return_def assms(1) assms(2) AICc_spec_def aic_weight_spec_def
        aicc_denominator_def k1_def k2_def)

section \<open>Facts about the examples\<close>

lemma usites_AB: "usites ifile_AB = [''A'', ''B'']"
  by (simp add: usites_def ifile_AB_def site_records_def)

lemma genfromtxt_example: "genfromtxt (ext_example t) name = Inr t"
  by (simp add: ext_example_def)

lemma models_return_example: "0 \<le> S \<Longrightarrow> models_return (ext_example t) S N ob"
  unfolding models_return_def ext_example_def
  by (auto intro: exI [of _ "1 / 2"])

lemma models_return_ascending: "0 \<le> S \<Longrightarrow> models_return (ext_ascending t) S N ob"
  unfolding models_return_def ext_ascending_def ext_example_def
  by (auto intro: exI [of _ "1 / 2"])

lemma stats_return_example: "3 < n \<Longrightarrow> stats_return (ext_example t) n"
  by (simp add: stats_return_def ext_example_def AICc_spec_def aic_weight_spec_def
        aicc_denominator_def k1_def k2_def)

lemma richness_A: "richness ifile_A ''A'' = 10"
  by (simp add: richness_def subsites_def ifile_A_def site_records_def)

lemma site_models_return_example_A: "site_models_return (ext_example ifile_A) ifile_A ''A''"
  unfolding site_models_return_def by (rule models_return_example) (simp add: richness_A)

lemma site_models_return_ascending_A: "site_models_return (ext_ascending ifile_A) ifile_A ''A''"
  unfolding site_models_return_def by (rule models_return_ascending) (simp add: richness_A)

lemma fit_site_strict_A: "fit_site (ext_strict ifile_AB) 9 ifile_AB ''A'' = Inl ModelFitError"
  by (simp add: fit_site_def ext_strict_def ext_example_def ifile_AB_def site_records_def
        subsites_def site_ab_def Let_def py_sum_def wrap_i8_def)

section \<open>Facts about rare\_sp\_count\<close>

lemma single_listing:
  assumes "set_listing listing" and "xs \<noteq> []" and "\<forall>x \<in> set xs. x = s"
  shows "listing xs = [s]"
proof -
  from assms(1) have d: "distinct (listing xs)" and e: "set (listing xs) = set xs"
    by (simp_all add: set_listing_def)
  from assms(2) assms(3) have "set xs = {s}" by (cases xs) auto
  with e have st: "set (listing xs) = {s}" by simp
  from d have "length (listing xs) = card (set (listing xs))"
    by (simp add: distinct_card)
  then have "length (listing xs) = Suc 0" by (simp add: st)
  then obtain y where y: "listing xs = [y]"
    by (auto simp: length_Suc_conv)
  with st show ?thesis by simp
qed

lemma set_listing_remdups: "set_listing remdups"
  by (simp add: set_listing_def)

lemma one_site_table_columns:
  assumes "length ob = length prd"
  shows "map op_site (one_site_table s ob prd) = replicate (length ob) s"
    and "filter (\<lambda>r. op_site r = s) (one_site_table s ob prd) = one_site_table s ob prd"
    and "map op_obs (one_site_table s ob prd) = ob"
    and "map op_pred (one_site_table s ob prd) = prd"
proof -
  show "map op_site (one_site_table s ob prd) = replicate (length ob) s"
    using assms by (simp add: one_site_table_def case_prod_unfold comp_def map_replicate_const)
  show "filter (\<lambda>r. op_site r = s) (one_site_table s ob prd) = one_site_table s ob prd"
    by (rule filter_True) (auto simp: one_site_table_def)
  have "map op_obs (one_site_table s ob prd) = map fst (zip ob prd)"
    by (simp add: one_site_table_def case_prod_unfold)
  then show "map op_obs (one_site_table s ob prd) = ob" using assms by simp
  have "map op_pred (one_site_table s ob prd) = map snd (zip ob prd)"
    by (simp add: one_site_table_def case_prod_unfold)
  then show "map op_pred (one_site_table s ob prd) = prd" using assms by simp
qed

lemma rare_sp_count_one_site:
  assumes "set_listing listing" and "length ob = length prd" and "1 < length ob"
  shows "rare_sp_count listing (one_site_table s ob prd) abundance_class =
           (case class_counts abundance_class prd ob of
              Inl e \<Rightarrow> Inl e
            | Inr (subpred, subobs) \<Rightarrow> Inr ([subpred], [subobs]))"
proof -
  have "listing (map op_site (one_site_table s ob prd)) = [s]"
    using assms(1)
  proof (rule single_listing)
    show "map op_site (one_site_table s ob prd) \<noteq> []"
      using assms(2) assms(3) by (auto simp: one_site_table_columns(1))
    show "\<forall>x \<in> set (map op_site (one_site_table s ob prd)). x = s"
      using assms(2) by (simp add: one_site_table_columns(1))
  qed
  moreover have "length (one_site_table s ob prd) \<noteq> 1"
    using assms(2) assms(3) by (simp add: one_site_table_def)
  ultimately show ?thesis
    using assms(2)
    by (simp add: rare_sp_count_def site_pred_def site_obs_def one_site_table_columns
          split: sum.splits prod.splits)
qed

lemma class_counts_unknown:
  assumes "abundance_class \<notin> {''singleton'', ''doubleton'', ''dominant'', ''rare''}"
  shows "class_counts abundance_class prd ob = Inl UnboundLocalError"
  using assms by (simp add: class_counts_def)

text \<open>A table without rows has no site, and the loop body never runs.\<close>

lemma rare_sp_count_empty:
  assumes "set_listing listing"
  shows "rare_sp_count listing [] abundance_class = Inr ([], [])"
proof -
  from assms have "set (listing []) = {}" by (simp add: set_listing_def)
  then show ?thesis by (simp add: rare_sp_count_def)
qed

text \<open>A file of one row fails before the loop, whatever the class.\<close>

lemma rare_sp_count_one_row: "rare_sp_count listing [r] abundance_class = Inl TypeError"
  by (simp add: rare_sp_count_def)

text \<open>Every listed site has rows in the table.\<close>

lemma listed_site_has_rows:
  assumes "set_listing listing" and "u \<in> set (listing (map op_site ifile))"
  shows "site_pred ifile u \<noteq> []" and "site_obs ifile u \<noteq> []"
proof -
  from assms have "u \<in> op_site ` set ifile" by (simp add: set_listing_def)
  then obtain r where "r \<in> set ifile" "op_site r = u" by auto
  then have "filter (\<lambda>r. op_site r = u) ifile \<noteq> []"
    by (auto simp: filter_empty_conv)
  then show "site_pred ifile u \<noteq> []" and "site_obs ifile u \<noteq> []"
    by (simp_all add: site_pred_def site_obs_def)
qed

text \<open>\<open>max\<close> returns the greatest element, and a filtered length is a multiplicity.\<close>

lemma py_max_Max:
  assumes "xs \<noteq> []"
  shows "py_max xs = Inr (Max (set xs))"
proof -
  from assms obtain x rest where Cons: "xs = x # rest"
    by (cases xs) auto
  have "foldl max x rest = fold max rest x"
    by (simp add: foldl_conv_fold max.commute)
  also have "\<dots> = Max (set (x # rest))"
    by (rule Max.set_eq_fold [symmetric])
  finally have "foldl max x rest = Max (set xs)"
    by (simp only: Cons)
  then show ?thesis
    by (simp add: Cons py_max_def)
qed

lemma length_filter_eq_count: "length (filter (\<lambda>x. x = v) xs) = count (mset xs) v"
  by (induction xs) auto

text \<open>The loop for the classes \<open>singleton\<close> and \<open>dominant\<close>, from any state.\<close>

lemma class_loop_singleton:
  "class_loop ifile ''singleton'' us (pc, oc) =
     Inr (pc @ map (\<lambda>u. int (count (mset (site_pred ifile u)) 1)) us,
          oc @ map (\<lambda>u. int (count (mset (site_obs ifile u)) 1)) us)"
  by (induction us arbitrary: pc oc) (simp_all add: class_counts_def length_filter_eq_count)

lemma class_loop_dominant:
  assumes "\<forall>u \<in> set us. site_pred ifile u \<noteq> [] \<and> site_obs ifile u \<noteq> []"
  shows "class_loop ifile ''dominant'' us (pc, oc) =
     Inr (pc @ map (\<lambda>u. Max (set (site_pred ifile u))) us,
          oc @ map (\<lambda>u. Max (set (site_obs ifile u))) us)"
  using assms
  by (induction us arbitrary: pc oc) (simp_all add: class_counts_def py_max_Max)

section \<open>Skipped sites\<close>

text \<open>
  C2. A site whose richness is at most the cutoff is skipped: the loop body returns
  without rows and without an exception, and the loop goes on to the remaining sites
  with both output files as they were.
\<close>

theorem fit_site_skip:
  assumes "richness ifile u \<le> cutoff"
  shows "fit_site ext cutoff ifile u = Inr None
       \<and> site_loop ext cutoff ifile (u # us) (f1, f2) = site_loop ext cutoff ifile us (f1, f2)"
  using assms by (simp add: fit_site_def richness_def Let_def)

theorem fit_site_skip_witness:
  "richness ifile_A ''A'' \<le> 10
   \<and> fit_site (ext_example ifile_A) 10 ifile_A ''A'' = Inr None
   \<and> site_loop (ext_example ifile_A) 10 ifile_A [''A''] ([], [])
       = site_loop (ext_example ifile_A) 10 ifile_A [] ([], [])"
proof -
  have a: "richness ifile_A ''A'' \<le> 10" by (simp add: richness_A)
  from fit_site_skip [OF a, of "ext_example ifile_A" "[]" "[]" "[]"] a show ?thesis by blast
qed

section \<open>Processed sites\<close>

text \<open>
  C1. When no collaborator raises and the predictor returns one value per species, a
  site whose richness \<open>S\<close> exceeds the cutoff is processed: the loop body emits \<open>S\<close>
  species-level rows and one site-level row, which the loop appends to the two output
  files; the observed column of the rows is in descending order and has the same
  multiset of values as the abundances of the site in the input.
\<close>

theorem fit_site_emits:
  assumes "site_models_return ext ifile u" and "stats_return ext (richness ifile u)"
    and "cutoff < richness ifile u"
  shows "\<exists>rows srow. fit_site ext cutoff ifile u = Inr (Some (rows, srow))
           \<and> int (length rows) = richness ifile u
           \<and> descending (map observed rows)
           \<and> mset (map observed rows) = mset (site_ab ifile u)
           \<and> site_loop ext cutoff ifile (u # us) (f1, f2)
               = site_loop ext cutoff ifile us (f1 @ rows, f2 @ [srow])"
proof -
  from fit_site_returns [OF assms] obtain rows srow
    where r: "fit_site ext cutoff ifile u = Inr (Some (rows, srow))" by blast
  from r obtain prd where
    cs: "column_stack3 (subsites ifile u) (rev (sort (site_ab ifile u))) prd = Inr rows"
    by (rule fit_site_SomeE)
  have ob: "map observed rows = rev (sort (site_ab ifile u))"
    using cs by (rule column_stack3_columns)
  have "length (map observed rows) = length (site_ab ifile u)"
    by (simp add: ob)
  then have len: "int (length rows) = richness ifile u"
    by (simp add: richness_def subsites_def site_ab_def)
  have d: "descending (map observed rows)"
    by (simp add: ob descending_rev_sort)
  have m: "mset (map observed rows) = mset (site_ab ifile u)"
    by (simp add: ob)
  have "site_loop ext cutoff ifile (u # us) (f1, f2)
          = site_loop ext cutoff ifile us (f1 @ rows, f2 @ [srow])"
    by (simp add: r)
  with r len d m show ?thesis by blast
qed

theorem fit_site_emits_witness:
  "site_models_return (ext_example ifile_A) ifile_A ''A''
   \<and> stats_return (ext_example ifile_A) (richness ifile_A ''A'')
   \<and> 9 < richness ifile_A ''A''
   \<and> (\<exists>rows srow. fit_site (ext_example ifile_A) 9 ifile_A ''A'' = Inr (Some (rows, srow))
           \<and> int (length rows) = richness ifile_A ''A''
           \<and> descending (map observed rows)
           \<and> mset (map observed rows) = mset (site_ab ifile_A ''A'')
           \<and> site_loop (ext_example ifile_A) 9 ifile_A [''A''] ([], [])
               = site_loop (ext_example ifile_A) 9 ifile_A [] ([] @ rows, [] @ [srow]))"
proof -
  have a: "site_models_return (ext_example ifile_A) ifile_A ''A''"
    by (rule site_models_return_example_A)
  have b: "stats_return (ext_example ifile_A) (richness ifile_A ''A'')"
    by (simp add: richness_A stats_return_example)
  have c: "9 < richness ifile_A ''A''" by (simp add: richness_A)
  from fit_site_emits [OF a b c, of "[]" "[]" "[]"] a b c show ?thesis by blast
qed

section \<open>The predicted column\<close>

text \<open>
  C3, as the code has it. For every processed site the predicted column of the emitted
  rows is the sequence the predictor returned, in the order in which it returned it:
  the source does not sort it. It is paired by position with the observed abundances
  in descending order, and it is descending exactly when the predictor's sequence is.
\<close>

theorem fit_site_predicted_column:
  assumes "fit_site ext cutoff ifile u = Inr (Some (rows, srow))"
  shows "\<exists>prd p. get_mete_sad ext (richness ifile u) (py_sum (sort (site_ab ifile u))) = Inr (prd, p)
           \<and> map predicted rows = prd
           \<and> (descending (map predicted rows) \<longleftrightarrow> descending prd)
           \<and> map observed rows = rev (sort (site_ab ifile u))"
proof -
  from assms obtain prd p where
    g: "get_mete_sad ext (richness ifile u) (py_sum (sort (site_ab ifile u))) = Inr (prd, p)"
    and cs: "column_stack3 (subsites ifile u) (rev (sort (site_ab ifile u))) prd = Inr rows"
    by (rule fit_site_SomeE)
  from cs have "map predicted rows = prd" "map observed rows = rev (sort (site_ab ifile u))"
    by (rule column_stack3_columns)+
  with g show ?thesis by blast
qed

theorem fit_site_predicted_column_witness:
  "\<exists>rows srow. fit_site (ext_ascending ifile_A) 9 ifile_A ''A'' = Inr (Some (rows, srow))
      \<and> (\<exists>prd p. get_mete_sad (ext_ascending ifile_A) (richness ifile_A ''A'')
                       (py_sum (sort (site_ab ifile_A ''A''))) = Inr (prd, p)
             \<and> map predicted rows = prd
             \<and> (descending (map predicted rows) \<longleftrightarrow> descending prd)
             \<and> map observed rows = rev (sort (site_ab ifile_A ''A'')))"
proof -
  have "stats_return (ext_ascending ifile_A) (richness ifile_A ''A'')"
    by (rule stats_return_spec) (simp_all add: ext_ascending_def ext_example_def richness_A)
  with site_models_return_ascending_A obtain rows srow where
    r: "fit_site (ext_ascending ifile_A) 9 ifile_A ''A'' = Inr (Some (rows, srow))"
    using fit_site_returns [of "ext_ascending ifile_A" ifile_A "''A''" 9]
    by (auto simp: richness_A)
  from fit_site_predicted_column [OF r] r show ?thesis by blast
qed

text \<open>
  C3, as the specification states it, fails: with a predictor that returns its
  sequence in ascending order, the predicted column of the rows written for site \<open>A\<close>
  is ascending.
\<close>

theorem run_test_ascending_counterexample:
  "map predicted (fst (fst (run_test (ext_ascending ifile_A) ''input.csv'' ([], []) 9)))
     = [1, 2, 3, 4, 5, 6, 7, 8, 9, 10]
   \<and> \<not> descending (map predicted
           (fst (fst (run_test (ext_ascending ifile_A) ''input.csv'' ([], []) 9))))"
  by (simp add: run_test_def usites_def fit_site_def ext_ascending_def ext_example_def ifile_A_def site_records_def
        subsites_def site_ab_def Let_def py_sum_def wrap_i8_def AICc_spec_def aic_weight_spec_def
        aicc_denominator_def k1_def k2_def column_stack3_def descending_def upto.simps)

section \<open>A collaborator that raises\<close>

text \<open>
  C4, as the code has it. The source catches no exception. When the loop body raises
  for a site (the predictor or a likelihood function raised), \<open>run_test\<close> ends with that
  exception at that site: the output files hold the rows of the sites before it in
  sorted order, and no row is written for that site or for any site after it.
\<close>

theorem run_test_raise:
  assumes "genfromtxt ext name = Inr ifile"
    and "usites ifile = before @ u # later"
    and "site_loop ext cutoff ifile before out = (out', None)"
    and "fit_site ext cutoff ifile u = Inl e"
  shows "run_test ext name out cutoff = (out', Some e)"
proof -
  obtain f1 f2 where o: "out' = (f1, f2)" by (cases out')
  have "site_loop ext cutoff ifile (u # later) out' = (out', Some e)"
    by (simp add: o assms(4))
  then have "site_loop ext cutoff ifile (before @ u # later) out = (out', Some e)"
    by (simp add: site_loop_append assms(3))
  then show ?thesis
    by (simp add: run_test_def assms(1) assms(2))
qed

theorem run_test_raise_witness:
  "genfromtxt (ext_strict ifile_AB) ''input.csv'' = Inr ifile_AB
   \<and> usites ifile_AB = [] @ ''A'' # [''B'']
   \<and> site_loop (ext_strict ifile_AB) 9 ifile_AB [] ([], []) = (([], []), None)
   \<and> fit_site (ext_strict ifile_AB) 9 ifile_AB ''A'' = Inl ModelFitError
   \<and> run_test (ext_strict ifile_AB) ''input.csv'' ([], []) 9 = (([], []), Some ModelFitError)"
proof -
  have a: "genfromtxt (ext_strict ifile_AB) ''input.csv'' = Inr ifile_AB"
    by (simp add: ext_strict_def ext_example_def)
  have b: "usites ifile_AB = [] @ ''A'' # [''B'']"
    by (simp add: usites_AB)
  have c: "site_loop (ext_strict ifile_AB) 9 ifile_AB [] ([], []) = (([], []), None)"
    by simp
  note d = fit_site_strict_A
  from run_test_raise [OF a b c d] a b c d show ?thesis by blast
qed

text \<open>
  C4, as the specification states it, fails: the predictor raises for site \<open>A\<close>, and
  the run ends there with nothing written, although site \<open>B\<close> on its own is processed
  and has ten rows.
\<close>

theorem run_test_continue_counterexample:
  "run_test (ext_strict ifile_AB) ''input.csv'' ([], []) 9 = (([], []), Some ModelFitError)
   \<and> map observed (emitted_rows (fit_site (ext_strict ifile_AB) 9 ifile_AB ''B''))
       = [20, 11, 10, 6, 5, 4, 3, 2, 1, 1]"
proof -
  have "site_loop (ext_strict ifile_AB) 9 ifile_AB [''A'', ''B''] ([], [])
          = (([], []), Some ModelFitError)"
    by (simp add: fit_site_strict_A)
  then have "run_test (ext_strict ifile_AB) ''input.csv'' ([], []) 9
          = (([], []), Some ModelFitError)"
    by (simp add: run_test_def usites_AB ext_strict_def ext_example_def)
  moreover have "map observed (emitted_rows (fit_site (ext_strict ifile_AB) 9 ifile_AB ''B''))
       = [20, 11, 10, 6, 5, 4, 3, 2, 1, 1]"
    by (simp add: fit_site_def ext_strict_def ext_example_def ifile_AB_def site_records_def
        subsites_def site_ab_def Let_def py_sum_def wrap_i8_def AICc_spec_def aic_weight_spec_def
        aicc_denominator_def k1_def k2_def column_stack3_def emitted_rows_def
        eval_nat_numeral)
  ultimately show ?thesis by blast
qed

section \<open>The AICc denominator\<close>

text \<open>
  C5. For a cutoff above 2 and a site that passes the check \<open>S > cutoff\<close>, the
  denominator \<open>S - k - 1\<close> of the AICc formula is positive for \<open>k = 1\<close> and for
  \<open>k = 2\<close>, so both AICc calls of the loop body return a value; with a predictor,
  likelihoods and a weight function that return, the site is processed.
\<close>

theorem aicc_denominator_positive:
  assumes "2 < cutoff" and "cutoff < richness ifile u"
  shows "0 < aicc_denominator k1 (richness ifile u)
       \<and> 0 < aicc_denominator k2 (richness ifile u)
       \<and> (\<forall>L. \<exists>v. AICc_spec k1 L (richness ifile u) = Inr v)
       \<and> (\<forall>L. \<exists>v. AICc_spec k2 L (richness ifile u) = Inr v)
       \<and> (site_models_return ext ifile u \<and> AICc ext = AICc_spec
            \<and> (\<forall>a b c. \<exists>w. aic_weight ext a b (richness ifile u) c = Inr w)
          \<longrightarrow> (\<exists>rows srow. fit_site ext cutoff ifile u = Inr (Some (rows, srow))))"
proof -
  have d1: "0 < aicc_denominator k1 (richness ifile u)"
    using assms by (simp add: aicc_denominator_def k1_def)
  have d2: "0 < aicc_denominator k2 (richness ifile u)"
    using assms by (simp add: aicc_denominator_def k2_def)
  have r1: "\<forall>L. \<exists>v. AICc_spec k1 L (richness ifile u) = Inr v"
    using d1 by (simp add: AICc_spec_returns)
  have r2: "\<forall>L. \<exists>v. AICc_spec k2 L (richness ifile u) = Inr v"
    using d2 by (simp add: AICc_spec_returns)
  have "\<exists>rows srow. fit_site ext cutoff ifile u = Inr (Some (rows, srow))"
    if m: "site_models_return ext ifile u" and a: "AICc ext = AICc_spec"
      and w: "\<forall>a b c. \<exists>w. aic_weight ext a b (richness ifile u) c = Inr w"
  proof -
    have "stats_return ext (richness ifile u)"
      using r1 r2 w by (simp add: stats_return_def a)
    with m show ?thesis using assms(2) by (rule fit_site_returns)
  qed
  with d1 d2 r1 r2 show ?thesis by blast
qed

theorem aicc_denominator_positive_witness:
  "(2::int) < 9 \<and> 9 < richness ifile_A ''A''
   \<and> 0 < aicc_denominator k1 (richness ifile_A ''A'')
   \<and> 0 < aicc_denominator k2 (richness ifile_A ''A'')
   \<and> (\<forall>L. \<exists>v. AICc_spec k1 L (richness ifile_A ''A'') = Inr v)
   \<and> (\<forall>L. \<exists>v. AICc_spec k2 L (richness ifile_A ''A'') = Inr v)
   \<and> site_models_return (ext_example ifile_A) ifile_A ''A''
   \<and> AICc (ext_example ifile_A) = AICc_spec
   \<and> (\<forall>a b c. \<exists>w. aic_weight (ext_example ifile_A) a b (richness ifile_A ''A'') c = Inr w)
   \<and> (\<exists>rows srow. fit_site (ext_example ifile_A) 9 ifile_A ''A'' = Inr (Some (rows, srow)))"
proof -
  have a: "(2::int) < 9" by simp
  have b: "9 < richness ifile_A ''A''" by (simp add: richness_A)
  have c: "site_models_return (ext_example ifile_A) ifile_A ''A''"
    by (rule site_models_return_example_A)
  have d: "AICc (ext_example ifile_A) = AICc_spec" by (simp add: ext_example_def)
  have e: "\<forall>a b c. \<exists>w. aic_weight (ext_example ifile_A) a b (richness ifile_A ''A'') c = Inr w"
    by (simp add: ext_example_def aic_weight_spec_def)
  from aicc_denominator_positive [OF a b, of "ext_example ifile_A"] a b c d e
  show ?thesis by blast
qed

section \<open>The weight\<close>

text \<open>
  C6. For every processed site the weight in the site-level row is the sentinel \<open>-1\<close>
  exactly when the richness is below 4, the cutoff the source passes to
  \<open>aic_weight\<close>; otherwise it lies between 0 and 1.
\<close>

theorem fit_site_weight:
  assumes "aic_weight ext = aic_weight_spec"
    and "fit_site ext cutoff ifile u = Inr (Some (rows, srow))"
  shows "(srow_weight srow = - 1 \<longleftrightarrow> richness ifile u < 4)
       \<and> (\<not> richness ifile u < 4 \<longrightarrow> 0 \<le> srow_weight srow \<and> srow_weight srow \<le> 1)"
proof -
  from assms(2) obtain p A1 A2 w where
    w: "aic_weight ext A1 A2 (richness ifile u) 4 = Inr w"
    and s: "srow = \<lparr>srow_site = u, srow_S = richness ifile u,
             srow_N = py_sum (sort (site_ab ifile u)), srow_p = p, srow_weight = w\<rparr>"
    by (rule fit_site_SomeE)
  from w have "aic_weight_spec A1 A2 (richness ifile u) 4 = Inr w"
    by (simp add: assms(1))
  then have "(w = - 1 \<longleftrightarrow> richness ifile u < 4) \<and> (\<not> richness ifile u < 4 \<longrightarrow> 0 \<le> w \<and> w \<le> 1)"
    by (rule aic_weight_spec_range)
  then show ?thesis by (simp add: s)
qed

theorem fit_site_weight_witness:
  "aic_weight (ext_example ifile_A) = aic_weight_spec
   \<and> (\<exists>rows srow. fit_site (ext_example ifile_A) 9 ifile_A ''A'' = Inr (Some (rows, srow))
         \<and> \<not> richness ifile_A ''A'' < 4
         \<and> srow_weight srow \<noteq> - 1
         \<and> 0 \<le> srow_weight srow \<and> srow_weight srow \<le> 1)"
proof -
  have a: "aic_weight (ext_example ifile_A) = aic_weight_spec" by (simp add: ext_example_def)
  have "stats_return (ext_example ifile_A) (richness ifile_A ''A'')"
    by (simp add: richness_A stats_return_example)
  with site_models_return_example_A obtain rows srow where
    b: "fit_site (ext_example ifile_A) 9 ifile_A ''A'' = Inr (Some (rows, srow))"
    using fit_site_returns [of "ext_example ifile_A" ifile_A "''A''" 9]
    by (auto simp: richness_A)
  have c: "\<not> richness ifile_A ''A'' < 4" by (simp add: richness_A)
  from fit_site_weight [OF a b] a b c show ?thesis by blast
qed

section \<open>End to end\<close>

text \<open>
  C8. On a table whose ten rows all belong to site \<open>A\<close>, with the abundances
  1, 1, 2, 5, 10, 20, 3, 4, 6, 11, and the default cutoff 9, \<open>run_test\<close> ends without
  an exception and appends one site-level row, for \<open>A\<close> with \<open>S = 10\<close>, \<open>N = 63\<close> and a
  weight between 0 and 1, and ten species-level rows whose observed column is
  20, 11, 10, 6, 5, 4, 3, 2, 1, 1.
\<close>

theorem run_test_site_A:
  assumes "genfromtxt ext name = Inr ifile"
    and "map site ifile = replicate 10 ''A''"
    and "map ab ifile = [1, 1, 2, 5, 10, 20, 3, 4, 6, 11]"
    and "models_return ext 10 63 [20, 11, 10, 6, 5, 4, 3, 2, 1, 1]"
    and "AICc ext = AICc_spec"
    and "aic_weight ext = aic_weight_spec"
  shows "\<exists>rows srow. run_test ext name (f1, f2) 9 = ((f1 @ rows, f2 @ [srow]), None)
           \<and> length rows = 10
           \<and> map row_site rows = replicate 10 ''A''
           \<and> map observed rows = [20, 11, 10, 6, 5, 4, 3, 2, 1, 1]
           \<and> srow_site srow = ''A'' \<and> srow_S srow = 10 \<and> srow_N srow = 63
           \<and> 0 \<le> srow_weight srow \<and> srow_weight srow \<le> 1"
proof -
  have "set (map site ifile) = {''A''}"
    by (simp add: assms(2))
  then have all: "\<forall>r \<in> set ifile. site r = ''A''"
    by auto
  then have flt: "filter (\<lambda>r. site r = ''A'') ifile = ifile"
    by simp
  have us: "usites ifile = [''A'']"
    by (simp add: usites_def assms(2) eval_nat_numeral)
  have subs: "subsites ifile ''A'' = replicate 10 ''A''"
    by (simp add: subsites_def flt assms(2))
  have S: "richness ifile ''A'' = 10"
    by (simp add: richness_def subs)
  have abs: "site_ab ifile ''A'' = [1, 1, 2, 5, 10, 20, 3, 4, 6, 11]"
    by (simp add: site_ab_def flt assms(3))
  have N: "py_sum (sort (site_ab ifile ''A'')) = 63"
    by (simp add: abs py_sum_def wrap_i8_def)
  have ob: "rev (sort (site_ab ifile ''A'')) = [20, 11, 10, 6, 5, 4, 3, 2, 1, 1]"
    by (simp add: abs)
  have st: "stats_return ext (richness ifile ''A'')"
    using assms(5) assms(6) by (rule stats_return_spec) (simp add: S)
  have m: "site_models_return ext ifile ''A''"
    using assms(4) by (simp add: site_models_return_def S N ob)
  have "9 < richness ifile ''A''" by (simp add: S)
  with m st obtain rows srow where
    r: "fit_site ext 9 ifile ''A'' = Inr (Some (rows, srow))"
    using fit_site_returns by blast
  from r obtain prd p A1 A2 w where
    w: "aic_weight ext A1 A2 (richness ifile ''A'') 4 = Inr w"
    and cs: "column_stack3 (subsites ifile ''A'') (rev (sort (site_ab ifile ''A''))) prd = Inr rows"
    and s: "srow = \<lparr>srow_site = ''A'', srow_S = richness ifile ''A'',
             srow_N = py_sum (sort (site_ab ifile ''A'')), srow_p = p, srow_weight = w\<rparr>"
    by (rule fit_site_SomeE)
  from cs have c1: "map row_site rows = replicate 10 ''A''"
    and c2: "map observed rows = [20, 11, 10, 6, 5, 4, 3, 2, 1, 1]"
    using column_stack3_columns(1,2) [OF cs] by (simp_all add: subs ob)
  have "length (map observed rows) = 10" by (simp add: c2)
  then have len: "length rows = 10" by simp
  from w have "aic_weight_spec A1 A2 10 4 = Inr w"
    by (simp add: assms(6) S)
  then have wr: "0 \<le> w \<and> w \<le> 1"
    using aic_weight_spec_range by fastforce
  have run: "run_test ext name (f1, f2) 9 = ((f1 @ rows, f2 @ [srow]), None)"
    by (simp add: run_test_def assms(1) us r)
  show ?thesis
    using run len c1 c2 wr by (simp add: s S N)
qed

theorem run_test_site_A_witness:
  "genfromtxt (ext_example ifile_A) ''input.csv'' = Inr ifile_A
   \<and> map site ifile_A = replicate 10 ''A''
   \<and> map ab ifile_A = [1, 1, 2, 5, 10, 20, 3, 4, 6, 11]
   \<and> models_return (ext_example ifile_A) 10 63 [20, 11, 10, 6, 5, 4, 3, 2, 1, 1]
   \<and> AICc (ext_example ifile_A) = AICc_spec
   \<and> aic_weight (ext_example ifile_A) = aic_weight_spec
   \<and> (\<exists>rows srow. run_test (ext_example ifile_A) ''input.csv'' ([], []) 9
                       = (([] @ rows, [] @ [srow]), None)
           \<and> length rows = 10
           \<and> map row_site rows = replicate 10 ''A''
           \<and> map observed rows = [20, 11, 10, 6, 5, 4, 3, 2, 1, 1]
           \<and> srow_site srow = ''A'' \<and> srow_S srow = 10 \<and> srow_N srow = 63
           \<and> 0 \<le> srow_weight srow \<and> srow_weight srow \<le> 1)"
proof -
  have a: "genfromtxt (ext_example ifile_A) ''input.csv'' = Inr ifile_A"
    by (rule genfromtxt_example)
  have b: "map site ifile_A = replicate 10 ''A''"
    by (simp add: ifile_A_def site_records_def eval_nat_numeral)
  have c: "map ab ifile_A = [1, 1, 2, 5, 10, 20, 3, 4, 6, 11]"
    by (simp add: ifile_A_def site_records_def)
  have d: "models_return (ext_example ifile_A) 10 63 [20, 11, 10, 6, 5, 4, 3, 2, 1, 1]"
    by (rule models_return_example) simp
  have e: "AICc (ext_example ifile_A) = AICc_spec" by (simp add: ext_example_def)
  have f: "aic_weight (ext_example ifile_A) = aic_weight_spec" by (simp add: ext_example_def)
  from run_test_site_A [OF a b c d e f, of "[]" "[]"] a b c d e f show ?thesis by blast
qed

section \<open>Abundance classes\<close>

text \<open>
  C9. On a table that is not a single row, \<open>rare_sp_count\<close> returns, site by site in the order
  of the listing, for the class \<open>singleton\<close> the number of entries equal to 1 in the
  predicted and in the observed column of the site, and for the class \<open>dominant\<close> the
  maximum of each column. For one site with the predicted column 20, 1, 1, 3 and the
  observed column 15, 1, 2, 4 these are the counts 2 (predicted) and 1 (observed), and
  the values 20 (predicted) and 15 (observed).
\<close>

theorem rare_sp_count_classes:
  assumes "set_listing listing" and "length ifile \<noteq> 1"
  shows "rare_sp_count listing ifile ''singleton''
           = Inr (map (\<lambda>u. int (count (mset (site_pred ifile u)) 1)) (listing (map op_site ifile)),
                  map (\<lambda>u. int (count (mset (site_obs ifile u)) 1)) (listing (map op_site ifile)))
       \<and> rare_sp_count listing ifile ''dominant''
           = Inr (map (\<lambda>u. Max (set (site_pred ifile u))) (listing (map op_site ifile)),
                  map (\<lambda>u. Max (set (site_obs ifile u))) (listing (map op_site ifile)))
       \<and> rare_sp_count listing (one_site_table s [15, 1, 2, 4] [20, 1, 1, 3]) ''singleton''
           = Inr ([2], [1])
       \<and> rare_sp_count listing (one_site_table s [15, 1, 2, 4] [20, 1, 1, 3]) ''dominant''
           = Inr ([20], [15])"
proof -
  note n1 = assms(2)
  have sg: "rare_sp_count listing ifile ''singleton''
           = Inr (map (\<lambda>u. int (count (mset (site_pred ifile u)) 1)) (listing (map op_site ifile)),
                  map (\<lambda>u. int (count (mset (site_obs ifile u)) 1)) (listing (map op_site ifile)))"
    using class_loop_singleton [of ifile "listing (map op_site ifile)" "[]" "[]"] n1
    by (simp add: rare_sp_count_def)
  have "\<forall>u \<in> set (listing (map op_site ifile)). site_pred ifile u \<noteq> [] \<and> site_obs ifile u \<noteq> []"
    using listed_site_has_rows [OF assms(1)] by blast
  then have dm: "rare_sp_count listing ifile ''dominant''
           = Inr (map (\<lambda>u. Max (set (site_pred ifile u))) (listing (map op_site ifile)),
                  map (\<lambda>u. Max (set (site_obs ifile u))) (listing (map op_site ifile)))"
    using class_loop_dominant [of "listing (map op_site ifile)" ifile "[]" "[]"] n1
    by (simp add: rare_sp_count_def)
  have ex1: "rare_sp_count listing (one_site_table s [15, 1, 2, 4] [20, 1, 1, 3]) ''singleton''
           = Inr ([2], [1])"
    using assms(1) by (simp add: rare_sp_count_one_site class_counts_def)
  have ex2: "rare_sp_count listing (one_site_table s [15, 1, 2, 4] [20, 1, 1, 3]) ''dominant''
           = Inr ([20], [15])"
    using assms(1) by (simp add: rare_sp_count_one_site class_counts_def py_max_def)
  from sg dm ex1 ex2 show ?thesis by blast
qed

theorem rare_sp_count_classes_witness:
  "set_listing remdups
   \<and> length (one_site_table ''A'' [15, 1, 2, 4] [20, 1, 1, 3]) \<noteq> 1
   \<and> rare_sp_count remdups (one_site_table ''A'' [15, 1, 2, 4] [20, 1, 1, 3]) ''singleton''
       = Inr (map (\<lambda>u. int (count (mset (site_pred (one_site_table ''A'' [15, 1, 2, 4] [20, 1, 1, 3]) u)) 1))
                (remdups (map op_site (one_site_table ''A'' [15, 1, 2, 4] [20, 1, 1, 3]))),
              map (\<lambda>u. int (count (mset (site_obs (one_site_table ''A'' [15, 1, 2, 4] [20, 1, 1, 3]) u)) 1))
                (remdups (map op_site (one_site_table ''A'' [15, 1, 2, 4] [20, 1, 1, 3]))))
   \<and> rare_sp_count remdups (one_site_table ''A'' [15, 1, 2, 4] [20, 1, 1, 3]) ''dominant''
       = Inr (map (\<lambda>u. Max (set (site_pred (one_site_table ''A'' [15, 1, 2, 4] [20, 1, 1, 3]) u)))
                (remdups (map op_site (one_site_table ''A'' [15, 1, 2, 4] [20, 1, 1, 3]))),
              map (\<lambda>u. Max (set (site_obs (one_site_table ''A'' [15, 1, 2, 4] [20, 1, 1, 3]) u)))
                (remdups (map op_site (one_site_table ''A'' [15, 1, 2, 4] [20, 1, 1, 3]))))
   \<and> rare_sp_count remdups (one_site_table ''A'' [15, 1, 2, 4] [20, 1, 1, 3]) ''singleton''
       = Inr ([2], [1])
   \<and> rare_sp_count remdups (one_site_table ''A'' [15, 1, 2, 4] [20, 1, 1, 3]) ''dominant''
       = Inr ([20], [15])"
proof -
  have b: "length (one_site_table ''A'' [15, 1, 2, 4] [20, 1, 1, 3]) \<noteq> 1"
    by (simp add: one_site_table_def)
  from rare_sp_count_classes [OF set_listing_remdups b, of "''A''"] set_listing_remdups b
  show ?thesis by blast
qed

text \<open>
  C10. For a class name other than \<open>singleton\<close>, \<open>doubleton\<close>, \<open>dominant\<close> and
  \<open>rare\<close>, on a table of several rows, \<open>rare_sp_count\<close> raises at the first site
  group: the listing has a first site, the chain assigns no count for it, and the
  function ends with the \<open>UnboundLocalError\<close> of that read instead of a result.
\<close>

theorem rare_sp_count_unknown_class:
  assumes "set_listing listing"
    and "abundance_class \<notin> {''singleton'', ''doubleton'', ''dominant'', ''rare''}"
    and "1 < length ifile"
  shows "rare_sp_count listing ifile abundance_class = Inl UnboundLocalError
       \<and> (\<exists>u us. listing (map op_site ifile) = u # us
             \<and> class_counts abundance_class (site_pred ifile u) (site_obs ifile u)
                 = Inl UnboundLocalError)"
proof -
  from assms(3) have ne: "ifile \<noteq> []" and n1: "length ifile \<noteq> 1" by auto
  from assms(1) have "set (listing (map op_site ifile)) = set (map op_site ifile)"
    by (simp add: set_listing_def)
  with ne have "listing (map op_site ifile) \<noteq> []"
    by (cases ifile) auto
  then obtain u us where l: "listing (map op_site ifile) = u # us"
    by (cases "listing (map op_site ifile)") auto
  have c: "class_counts abundance_class (site_pred ifile u) (site_obs ifile u)
             = Inl UnboundLocalError"
    using assms(2) by (rule class_counts_unknown)
  have "rare_sp_count listing ifile abundance_class = Inl UnboundLocalError"
    using n1 by (simp add: rare_sp_count_def l c)
  with l c show ?thesis by blast
qed

theorem rare_sp_count_unknown_class_witness:
  "set_listing remdups
   \<and> ''common'' \<notin> {''singleton'', ''doubleton'', ''dominant'', ''rare''}
   \<and> 1 < length (one_site_table ''A'' [15, 1, 2, 4] [20, 1, 1, 3])
   \<and> rare_sp_count remdups (one_site_table ''A'' [15, 1, 2, 4] [20, 1, 1, 3]) ''common''
       = Inl UnboundLocalError
   \<and> (\<exists>u us. remdups (map op_site (one_site_table ''A'' [15, 1, 2, 4] [20, 1, 1, 3])) = u # us
         \<and> class_counts ''common''
             (site_pred (one_site_table ''A'' [15, 1, 2, 4] [20, 1, 1, 3]) u)
             (site_obs (one_site_table ''A'' [15, 1, 2, 4] [20, 1, 1, 3]) u)
             = Inl UnboundLocalError)"
proof -
  have b: "''common'' \<notin> {''singleton'', ''doubleton'', ''dominant'', ''rare''}" by simp
  have c: "1 < length (one_site_table ''A'' [15, 1, 2, 4] [20, 1, 1, 3])"
    by (simp add: one_site_table_def)
  from rare_sp_count_unknown_class [OF set_listing_remdups b c] set_listing_remdups b c
  show ?thesis by blast
qed

end
